theory Spec2Isabelle
  imports Main "HOL-Library.Char_ord" "HOL-Library.List_Lexorder" "HOL-Library.Sublist"
begin

section \<open>Python strings\<close>

text \<open>
  A Python \<open>str\<close> is modelled as a \<^typ>\<open>string\<close> holding its UTF-8 bytes; strings are compared
  as Python compares them, lexicographically (the order of the bytes of UTF-8 is the order
  of the code points). The handlers call three methods of \<open>str\<close>: \<open>strip\<close>, \<open>lower\<close> and
  \<open>title\<close>. They belong to Python, not to \<open>app.py\<close>, and work on all of Unicode; the model
  takes them as a parameter \<open>S\<close> of every function that calls them, so that what is proved
  holds for the methods of Python, whatever they do to a string.
\<close>

record str_methods =
  strip :: "string \<Rightarrow> string"  \<comment> \<open>\<open>s.strip()\<close>\<close>
  lower :: "string \<Rightarrow> string"  \<comment> \<open>\<open>s.lower()\<close>\<close>
  title :: "string \<Rightarrow> string"  \<comment> \<open>\<open>s.title()\<close>\<close>

definition str_laws :: "str_methods \<Rightarrow> bool" where
  \<comment> \<open>What is used of the methods of Python: they leave the empty string empty.\<close>
  "str_laws S = (strip S [] = [] \<and> lower S [] = [])"

fun join :: "string \<Rightarrow> string list \<Rightarrow> string" where
  \<comment> \<open>\<open>sep.join(xs)\<close>\<close>
  "join sep [] = []"
| "join sep [x] = x"
| "join sep (x # y # ys) = x @ sep @ join sep (y # ys)"

definition warning_sign :: string where
  \<comment> \<open>U+26A0 U+FE0F, the warning emoji of the message literals, in UTF-8.\<close>
  "warning_sign = [CHR 0xE2, CHR 0x9A, CHR 0xA0, CHR 0xEF, CHR 0xB8, CHR 0x8F]"

definition check_mark :: string where
  \<comment> \<open>U+2705, the check-mark emoji of the message literals, in UTF-8.\<close>
  "check_mark = [CHR 0xE2, CHR 0x9C, CHR 0x85]"

subsection \<open>The methods on ASCII text\<close>

text \<open>
  On a string of ASCII characters the three methods compute what is defined here. These
  definitions serve to evaluate the handlers at the examples, whose strings are ASCII.
\<close>

definition ascii_isspace :: "char \<Rightarrow> bool" where
  \<comment> \<open>The ASCII whitespace of \<open>str\<close>: TAB, LF, VT, FF, CR, FS, GS, RS, US and the space.\<close>
  "ascii_isspace c =
     (let n = (of_char c :: nat) in (9 \<le> n \<and> n \<le> 13) \<or> (28 \<le> n \<and> n \<le> 32))"

definition ascii_isupper :: "char \<Rightarrow> bool" where
  "ascii_isupper c = (let n = (of_char c :: nat) in 65 \<le> n \<and> n \<le> 90)"

definition ascii_islower :: "char \<Rightarrow> bool" where
  "ascii_islower c = (let n = (of_char c :: nat) in 97 \<le> n \<and> n \<le> 122)"

definition ascii_to_lower :: "char \<Rightarrow> char" where
  "ascii_to_lower c = (if ascii_isupper c then char_of ((of_char c :: nat) + 32) else c)"

definition ascii_to_upper :: "char \<Rightarrow> char" where
  "ascii_to_upper c = (if ascii_islower c then char_of ((of_char c :: nat) - 32) else c)"

definition ascii_strip :: "string \<Rightarrow> string" where
  \<comment> \<open>Whitespace removed from both ends.\<close>
  "ascii_strip s = rev (dropWhile ascii_isspace (rev (dropWhile ascii_isspace s)))"

definition ascii_lower :: "string \<Rightarrow> string" where
  "ascii_lower s = map ascii_to_lower s"

fun ascii_title_from :: "bool \<Rightarrow> string \<Rightarrow> string" where
  \<comment> \<open>The loop of \<open>str.title\<close>; the flag says that the previous character was a letter.\<close>
  "ascii_title_from prev [] = []"
| "ascii_title_from prev (c # cs) =
     (if ascii_isupper c \<or> ascii_islower c
      then (if prev then ascii_to_lower c else ascii_to_upper c) # ascii_title_from True cs
      else c # ascii_title_from False cs)"

definition ascii_title :: "string \<Rightarrow> string" where
  \<comment> \<open>A letter that follows a character that is no letter (or starts the string) is
      upper-cased, every other letter is lower-cased.\<close>
  "ascii_title s = ascii_title_from False s"

definition ascii_str :: str_methods where
  "ascii_str = \<lparr>strip = ascii_strip, lower = ascii_lower, title = ascii_title\<rparr>"

section \<open>Python values and exceptions\<close>

datatype py_error = KeyError | AttributeError | TypeError

text \<open>
  The value that \<open>request.get_json()\<close> returns to a handler: the parsed JSON document of the
  body, \<open>JNull\<close> being Python's \<open>None\<close> (the body \<open>null\<close>). A JSON object is the association
  list of its dictionary. A request for which \<open>get_json\<close> does not return (no JSON body, or
  a body that does not parse) is answered by the framework and is not a \<open>request\<close> here.
  The same type describes the dictionaries given to \<open>jsonify\<close>.
\<close>

datatype json =
    JNull
  | JBool bool
  | JNum int
  | JStr string
  | JArr "json list"
  | JObj "(string \<times> json) list"

fun truthy :: "json \<Rightarrow> bool" where
  \<comment> \<open>Python's truth value, as tested by \<open>if not content\<close>.\<close>
  "truthy JNull = False"
| "truthy (JBool b) = b"
| "truthy (JNum n) = (n \<noteq> 0)"
| "truthy (JStr s) = (s \<noteq> [])"
| "truthy (JArr xs) = (xs \<noteq> [])"
| "truthy (JObj kvs) = (kvs \<noteq> [])"

fun dict_get :: "json \<Rightarrow> string \<Rightarrow> json \<Rightarrow> py_error + json" where
  \<comment> \<open>\<open>content.get(key, default)\<close>; only a dictionary has the method.\<close>
  "dict_get (JObj kvs) k d = Inr (case map_of kvs k of None \<Rightarrow> d | Some v \<Rightarrow> v)"
| "dict_get _ k d = Inl AttributeError"

fun strip_lower :: "str_methods \<Rightarrow> json \<Rightarrow> py_error + string" where
  \<comment> \<open>\<open>v.strip().lower()\<close>; only a string has the methods.\<close>
  "strip_lower S (JStr s) = Inr (lower S (strip S s))"
| "strip_lower S _ = Inl AttributeError"

definition args_get :: "(string \<times> string) list \<Rightarrow> string \<Rightarrow> string \<Rightarrow> string" where
  \<comment> \<open>\<open>request.args.get(key, default)\<close>: the first value of the key in the query string.\<close>
  "args_get qs k d = (case map_of qs k of None \<Rightarrow> d | Some v \<Rightarrow> v)"

datatype http_method = GET | POST

record request =
  req_method :: http_method  \<comment> \<open>\<open>request.method\<close>\<close>
  get_json :: json
  args :: "(string \<times> string) list"

text \<open>A response is a body with its HTTP status; a handler that returns a bare body answers 200.\<close>

type_synonym 'b response = "'b \<times> nat"

section \<open>The tables\<close>

text \<open>
  A column of a frame read by \<open>pd.read_csv\<close> is a series of one of two kinds. A text
  column (dtype \<open>object\<close>) holds strings and missing values; it is what \<open>read_csv\<close> makes of a
  column in which some row has text, or of a column of a file without rows. A numeric
  column holds numbers and missing values; it is what \<open>read_csv\<close> makes of a column whose
  fields are all numbers or all empty. The kind stays with the series when rows are
  selected or missing values dropped. The \<open>.str\<close> accessor exists on text columns only: on a
  numeric column it raises \<open>AttributeError\<close>.
  A data frame maps each of its column names to its series; in a frame of pandas all series
  have the same length (\<open>wf_frame\<close>).
\<close>

datatype cell = NaN | Str string

datatype series = Text "cell list" | Numeric "int option list"

type_synonym dataframe = "(string \<times> series) list"

fun len :: "series \<Rightarrow> nat" where
  "len (Text cs) = length cs"
| "len (Numeric ns) = length ns"

definition columns :: "dataframe \<Rightarrow> string list" where
  "columns df = map fst df"

definition getitem :: "dataframe \<Rightarrow> string \<Rightarrow> py_error + series" where
  \<comment> \<open>\<open>df[name]\<close>\<close>
  "getitem df name = (case map_of df name of None \<Rightarrow> Inl KeyError | Some col \<Rightarrow> Inr col)"

definition nrows :: "dataframe \<Rightarrow> nat" where
  "nrows df = (case df of [] \<Rightarrow> 0 | (name, col) # _ \<Rightarrow> len col)"

definition wf_frame :: "dataframe \<Rightarrow> bool" where
  "wf_frame df = list_all (\<lambda>(name, col). len col = nrows df) df"

definition empty :: "dataframe \<Rightarrow> bool" where
  \<comment> \<open>\<open>df.empty\<close>: no column or no row.\<close>
  "empty df = (df = [] \<or> nrows df = 0)"

fun str_lower :: "str_methods \<Rightarrow> series \<Rightarrow> py_error + cell list" where
  \<comment> \<open>\<open>col.str.lower()\<close>: a text series; a missing value stays missing.\<close>
  "str_lower S (Text cs) = Inr (map (\<lambda>c. case c of NaN \<Rightarrow> NaN | Str s \<Rightarrow> Str (lower S s)) cs)"
| "str_lower S (Numeric ns) = Inl AttributeError"

definition fillna :: "string \<Rightarrow> cell list \<Rightarrow> cell list" where
  \<comment> \<open>\<open>col.fillna(v)\<close> on a text series\<close>
  "fillna v cs = map (\<lambda>c. case c of NaN \<Rightarrow> Str v | Str s \<Rightarrow> Str s) cs"

definition eq_scalar :: "cell list \<Rightarrow> string \<Rightarrow> bool list" where
  \<comment> \<open>\<open>col == value\<close> on a text series, element by element; a missing value equals nothing.\<close>
  "eq_scalar cs v = map (\<lambda>c. c = Str v) cs"

definition mask_and :: "bool list \<Rightarrow> bool list \<Rightarrow> bool list" where
  \<comment> \<open>\<open>m1 & m2\<close>\<close>
  "mask_and m1 m2 = map (\<lambda>(a, b). a \<and> b) (zip m1 m2)"

definition select :: "bool list \<Rightarrow> 'a list \<Rightarrow> 'a list" where
  "select m xs = map snd (filter fst (zip m xs))"

fun take_rows :: "bool list \<Rightarrow> series \<Rightarrow> series" where
  "take_rows m (Text cs) = Text (select m cs)"
| "take_rows m (Numeric ns) = Numeric (select m ns)"

definition bool_index :: "dataframe \<Rightarrow> bool list \<Rightarrow> dataframe" where
  \<comment> \<open>\<open>df[mask]\<close>: the rows where the mask is true, in every column.\<close>
  "bool_index df m = map (\<lambda>(name, col). (name, take_rows m col)) df"

text \<open>A series without its missing values: strings, or numbers.\<close>

datatype vals = Texts "string list" | Numbers "int list"

definition present :: "cell list \<Rightarrow> string list" where
  \<comment> \<open>The strings of a text series, in order.\<close>
  "present cs = concat (map (\<lambda>c. case c of NaN \<Rightarrow> [] | Str s \<Rightarrow> [s]) cs)"

fun dropna :: "series \<Rightarrow> vals" where
  \<comment> \<open>\<open>col.dropna()\<close>\<close>
  "dropna (Text cs) = Texts (present cs)"
| "dropna (Numeric ns) = Numbers (concat (map (\<lambda>n. case n of None \<Rightarrow> [] | Some i \<Rightarrow> [i]) ns))"

fun str_strip :: "str_methods \<Rightarrow> vals \<Rightarrow> py_error + string list" where
  \<comment> \<open>\<open>col.str.strip()\<close>\<close>
  "str_strip S (Texts ss) = Inr (map (strip S) ss)"
| "str_strip S (Numbers ns) = Inl AttributeError"

definition str_title :: "str_methods \<Rightarrow> string list \<Rightarrow> string list" where
  \<comment> \<open>\<open>col.str.title()\<close> on a text series without missing values\<close>
  "str_title S ss = map (title S) ss"

primrec uniq_from :: "'a list \<Rightarrow> 'a list \<Rightarrow> 'a list" where
  "uniq_from seen [] = []"
| "uniq_from seen (x # xs) =
     (if x \<in> set seen then uniq_from seen xs else x # uniq_from (x # seen) xs)"

definition unique :: "'a list \<Rightarrow> 'a list" where
  \<comment> \<open>\<open>col.unique()\<close>: the values in the order in which they are first met.\<close>
  "unique xs = uniq_from [] xs"

fun unique_tolist :: "vals \<Rightarrow> json list" where
  \<comment> \<open>\<open>col.unique().tolist()\<close>, as \<open>jsonify\<close> writes its elements.\<close>
  "unique_tolist (Texts ss) = map JStr (unique ss)"
| "unique_tolist (Numbers ns) = map JNum (unique ns)"

section \<open>Outbreak lookup\<close>

definition key_mask :: "str_methods \<Rightarrow> dataframe \<Rightarrow> string \<Rightarrow> string \<Rightarrow> py_error + bool list" where
  \<comment> \<open>\<open>df[name].str.lower() == value\<close>\<close>
  "key_mask S df name v =
     (case getitem df name of
        Inl e \<Rightarrow> Inl e
      | Inr col \<Rightarrow>
         (case str_lower S col of
            Inl e \<Rightarrow> Inl e
          | Inr lowered \<Rightarrow> Inr (eq_scalar lowered v)))"

definition outbreak_mask ::
  "str_methods \<Rightarrow> dataframe \<Rightarrow> string \<Rightarrow> string \<Rightarrow> py_error + bool list" where
  \<comment> \<open>The row filter of \<open>get_outbreak_response\<close>: lower-cased stored state and district against
      the two arguments.\<close>
  "outbreak_mask S df state district =
     (case key_mask S df ''Name of State/UT'' state of
        Inl e \<Rightarrow> Inl e
      | Inr m1 \<Rightarrow>
         (case key_mask S df ''Name of District'' district of
            Inl e \<Rightarrow> Inl e
          | Inr m2 \<Rightarrow> Inr (mask_and m1 m2)))"

definition alert_message :: "str_methods \<Rightarrow> string \<Rightarrow> string \<Rightarrow> string \<Rightarrow> string" where
  "alert_message S state district outbreak_str =
     warning_sign @ '' Alert! Your area '' @ title S district @ '' in '' @ title S state
       @ '' has reported disease outbreak(s): '' @ outbreak_str @ ''.''"

definition good_news_message :: "str_methods \<Rightarrow> string \<Rightarrow> string \<Rightarrow> string" where
  "good_news_message S state district =
     check_mark @ '' Good news! Your area '' @ title S district @ '', '' @ title S state
       @ '' currently shows no reported disease outbreaks in our records. ''
       @ ''However, if you're experiencing symptoms, you can check our remedies section.''"

definition outbreak_error_message :: "str_methods \<Rightarrow> string \<Rightarrow> string \<Rightarrow> string" where
  "outbreak_error_message S state district =
     ''An error occurred while checking for outbreaks in '' @ title S district @ '', ''
       @ title S state @ ''. Please try again later.''"

definition outbreak_try ::
  "str_methods \<Rightarrow> dataframe \<Rightarrow> string \<Rightarrow> string \<Rightarrow> py_error + string" where
  \<comment> \<open>The body of the \<open>try\<close> of \<open>get_outbreak_response\<close>; \<open>Inl\<close> is an exception raised in it.\<close>
  "outbreak_try S df state district =
     (case outbreak_mask S df state district of
        Inl e \<Rightarrow> Inl e
      | Inr m \<Rightarrow>
         (let filtered = bool_index df m in
          if \<not> empty filtered then
            (case getitem filtered ''Disease/Illness'' of
               Inl e \<Rightarrow> Inl e
             | Inr col \<Rightarrow>
                (case str_strip S (dropna col) of
                   Inl e \<Rightarrow> Inl e
                 | Inr stripped \<Rightarrow>
                    (let unique_diseases = sort (unique (str_title S stripped));
                         outbreak_str =
                           (if unique_diseases \<noteq> [] then join '', '' unique_diseases
                            else ''unspecified diseases'')
                     in Inr (alert_message S state district outbreak_str))))
          else Inr (good_news_message S state district)))"

definition get_outbreak_response ::
  "str_methods \<Rightarrow> dataframe \<Rightarrow> string \<Rightarrow> string \<Rightarrow> string response" where
  "get_outbreak_response S df state district =
     (case outbreak_try S df state district of
        Inr message \<Rightarrow> (message, 200)
      | Inl e \<Rightarrow> (outbreak_error_message S state district, 500))"

definition check_outbreak ::
  "str_methods \<Rightarrow> dataframe \<Rightarrow> request \<Rightarrow> py_error + string response" where
  \<comment> \<open>\<open>POST /check-outbreak\<close>; \<open>Inl\<close> is an exception that leaves the handler.\<close>
  "check_outbreak S df req =
     (let content = get_json req in
      if \<not> truthy content then Inr (''Error: No JSON data received.'', 400)
      else
        (case dict_get content ''state'' (JStr []) of
           Inl e \<Rightarrow> Inl e
         | Inr sv \<Rightarrow>
            (case strip_lower S sv of
               Inl e \<Rightarrow> Inl e
             | Inr state \<Rightarrow>
                (case dict_get content ''district'' (JStr []) of
                   Inl e \<Rightarrow> Inl e
                 | Inr dv \<Rightarrow>
                    (case strip_lower S dv of
                       Inl e \<Rightarrow> Inl e
                     | Inr district \<Rightarrow>
                        if state = [] \<or> district = []
                        then Inr (''Error: Both 'state' and 'district' are required.'', 400)
                        else Inr (get_outbreak_response S df state district))))))"

definition test_check ::
  "str_methods \<Rightarrow> dataframe \<Rightarrow> request \<Rightarrow> py_error + string response" where
  \<comment> \<open>\<open>GET /test-check\<close>\<close>
  "test_check S df req =
     (let state = lower S (strip S (args_get (args req) ''state'' []));
          district = lower S (strip S (args_get (args req) ''district'' []))
      in if state = [] \<or> district = []
         then Inr (''Error: Both 'state' and 'district' query parameters are required.'', 400)
         else Inr (get_outbreak_response S df state district))"

section \<open>Remedy lookup\<close>

definition remedy_json :: "str_methods \<Rightarrow> string \<Rightarrow> json list \<Rightarrow> json" where
  \<comment> \<open>The dictionary \<open>{"disease": disease_input.title(), "remedies": [...]}\<close>.\<close>
  "remedy_json S disease_input remedies =
     JObj [(''disease'', JStr (title S disease_input)), (''remedies'', JArr remedies)]"

definition remedy_body :: "str_methods \<Rightarrow> string \<Rightarrow> string list \<Rightarrow> json" where
  \<comment> \<open>The same dictionary with a list of strings.\<close>
  "remedy_body S disease_input remedies = remedy_json S disease_input (map JStr remedies)"

definition error_body :: "string \<Rightarrow> json" where
  \<comment> \<open>The dictionary \<open>{"error": message}\<close>.\<close>
  "error_body message = JObj [(''error'', JStr message)]"

definition format_issue :: string where
  "format_issue = warning_sign @ '' Error: Remedy data format issue (Missing 'Disease' column).''"

definition none_listed :: string where
  "none_listed =
     warning_sign @ '' No specific remedies listed for this disease, although it was found.''"

definition none_found :: string where
  "none_found =
     check_mark @ '' No Ayurvedic remedy found for this specific disease in our database.''"

definition search_failed :: string where
  "search_failed =
     warning_sign @ '' An error occurred while searching for remedies. Please try again later.''"

definition remedy_mask :: "str_methods \<Rightarrow> dataframe \<Rightarrow> string \<Rightarrow> py_error + bool list" where
  \<comment> \<open>The row filter of \<open>get_remedy\<close>:
      \<open>remedy_data["Disease"].str.lower().fillna('') == disease_input\<close>.\<close>
  "remedy_mask S df disease_input =
     (case getitem df ''Disease'' of
        Inl e \<Rightarrow> Inl e
      | Inr col \<Rightarrow>
         (case str_lower S col of
            Inl e \<Rightarrow> Inl e
          | Inr lowered \<Rightarrow> Inr (eq_scalar (fillna [] lowered) disease_input)))"

definition remedy_try :: "str_methods \<Rightarrow> dataframe \<Rightarrow> string \<Rightarrow> py_error + json response" where
  \<comment> \<open>The body of the \<open>try\<close> of \<open>get_remedy\<close>.\<close>
  "remedy_try S df disease_input =
     (if ''Disease'' \<notin> set (columns df)
      then Inr (remedy_body S disease_input [format_issue], 500)
      else
        (case remedy_mask S df disease_input of
           Inl e \<Rightarrow> Inl e
         | Inr m \<Rightarrow>
            (let remedies = bool_index df m in
             if \<not> empty remedies then
               (case getitem remedies ''Remedy'' of
                  Inl e \<Rightarrow> Inl e
                | Inr col \<Rightarrow>
                   (let remedy_list = unique_tolist (dropna col) in
                    if remedy_list = []
                    then Inr (remedy_body S disease_input [none_listed], 200)
                    else Inr (remedy_json S disease_input remedy_list, 200)))
             else Inr (remedy_body S disease_input [none_found], 200))))"

definition remedy_input :: "str_methods \<Rightarrow> request \<Rightarrow> py_error + (json response + string)" where
  \<comment> \<open>The reading of \<open>disease_input\<close>: \<open>Inr (Inl r)\<close> is the early return of the response \<open>r\<close>,
      \<open>Inr (Inr d)\<close> the string read, \<open>Inl\<close> an exception that leaves the handler.\<close>
  "remedy_input S req =
     (if req_method req = POST then
        (let content = get_json req in
         if \<not> truthy content then Inr (Inl (error_body ''No JSON data received.'', 400))
         else
           (case dict_get content ''disease'' (JStr []) of
              Inl e \<Rightarrow> Inl e
            | Inr v \<Rightarrow> (case strip_lower S v of Inl e \<Rightarrow> Inl e | Inr d \<Rightarrow> Inr (Inr d))))
      else Inr (Inr (lower S (strip S (args_get (args req) ''disease'' [])))))"

definition get_remedy :: "str_methods \<Rightarrow> dataframe \<Rightarrow> request \<Rightarrow> py_error + json response" where
  \<comment> \<open>\<open>POST|GET /get-remedy\<close>\<close>
  "get_remedy S df req =
     (case remedy_input S req of
        Inl e \<Rightarrow> Inl e
      | Inr (Inl r) \<Rightarrow> Inr r
      | Inr (Inr disease_input) \<Rightarrow>
         if disease_input = [] then Inr (error_body ''Disease parameter is required.'', 400)
         else
           (case remedy_try S df disease_input of
              Inr r \<Rightarrow> Inr r
            | Inl e \<Rightarrow> Inr (remedy_body S disease_input [search_failed], 500)))"

section \<open>The handlers on a store of objects\<close>









































section \<open>Notions used to state the properties\<close>

definition key_match :: "str_methods \<Rightarrow> cell \<Rightarrow> string \<Rightarrow> bool" where
  \<comment> \<open>A stored key that is present and, lower-cased, equal to the value \<open>q\<close>.\<close>
  "key_match S c q = (case c of NaN \<Rightarrow> False | Str s \<Rightarrow> lower S s = q)"

definition matching_rows ::
  "str_methods \<Rightarrow> cell list \<Rightarrow> cell list \<Rightarrow> string \<Rightarrow> string \<Rightarrow> (cell \<times> cell) list" where
  \<comment> \<open>The (state, district) pairs of the outbreak rows that match the two arguments.\<close>
  "matching_rows S st di state district =
     filter (\<lambda>(s, d). key_match S s state \<and> key_match S d district) (zip st di)"

definition matching_diseases ::
  "str_methods \<Rightarrow> cell list \<Rightarrow> cell list \<Rightarrow> cell list \<Rightarrow> string \<Rightarrow> string \<Rightarrow> string list" where
  \<comment> \<open>The disease names that are present in the matching outbreak rows, in table order.\<close>
  "matching_diseases S st di dis state district =
     present (map snd (filter (\<lambda>((s, d), x). key_match S s state \<and> key_match S d district)
       (zip (zip st di) dis)))"

definition listed_diseases :: "str_methods \<Rightarrow> string list \<Rightarrow> string list" where
  \<comment> \<open>The names trimmed and title-cased, without duplicates, in ascending order.\<close>
  "listed_diseases S texts = sorted_list_of_set ((\<lambda>t. title S (strip S t)) ` set texts)"

definition disease_text :: "str_methods \<Rightarrow> string list \<Rightarrow> string" where
  \<comment> \<open>The disease list of the alert: the listed names joined by a comma and a space, or the
      fixed phrase when no name is listed.\<close>
  "disease_text S texts =
     (if listed_diseases S texts = [] then ''unspecified diseases''
      else join '', '' (listed_diseases S texts))"

definition matching_keys :: "str_methods \<Rightarrow> cell list \<Rightarrow> string \<Rightarrow> cell list" where
  \<comment> \<open>The disease keys of the remedy rows that match the argument.\<close>
  "matching_keys S dcol q = filter (\<lambda>d. key_match S d q) dcol"

definition matching_remedies ::
  "str_methods \<Rightarrow> cell list \<Rightarrow> cell list \<Rightarrow> string \<Rightarrow> string list" where
  \<comment> \<open>The remedy texts that are present in the matching remedy rows, in table order.\<close>
  "matching_remedies S dcol rcol q =
     present (map snd (filter (\<lambda>(d, r). key_match S d q) (zip dcol rcol)))"

definition first_appearance :: "'a list \<Rightarrow> 'a list" where
  \<comment> \<open>The entries of a list that do not occur earlier in it, in the order of the list.\<close>
  "first_appearance xs =
     map (\<lambda>i. xs ! i) (filter (\<lambda>i. xs ! i \<notin> set (take i xs)) [0..<length xs])"

fun is_str :: "json \<Rightarrow> bool" where
  "is_str (JStr s) = True"
| "is_str _ = False"

definition is_listing :: "json \<Rightarrow> bool" where
  \<comment> \<open>A dictionary with a string under \<open>disease\<close> and a list under \<open>remedies\<close>.\<close>
  "is_listing b =
     (case b of
        JObj kvs \<Rightarrow>
          (case map_of kvs ''disease'' of
             Some (JStr d) \<Rightarrow>
               (case map_of kvs ''remedies'' of Some (JArr xs) \<Rightarrow> True | _ \<Rightarrow> False)
           | _ \<Rightarrow> False)
      | _ \<Rightarrow> False)"

definition is_structured :: "json \<Rightarrow> bool" where
  \<comment> \<open>A dictionary with a string under \<open>disease\<close> and a list of strings under \<open>remedies\<close>.\<close>
  "is_structured b =
     (case b of
        JObj kvs \<Rightarrow>
          (case map_of kvs ''disease'' of
             Some (JStr d) \<Rightarrow>
               (case map_of kvs ''remedies'' of Some (JArr xs) \<Rightarrow> list_all is_str xs | _ \<Rightarrow> False)
           | _ \<Rightarrow> False)
      | _ \<Rightarrow> False)"

definition numeric_column :: "dataframe \<Rightarrow> string \<Rightarrow> bool" where
  "numeric_column df name = (case getitem df name of Inr (Numeric ns) \<Rightarrow> True | _ \<Rightarrow> False)"

definition text_field :: "(string \<times> json) list \<Rightarrow> string \<Rightarrow> bool" where
  \<comment> \<open>The field is absent from the dictionary or holds a string.\<close>
  "text_field kvs k = (case map_of kvs k of None \<Rightarrow> True | Some (JStr s) \<Rightarrow> True | _ \<Rightarrow> False)"

definition blank_field :: "str_methods \<Rightarrow> (string \<times> json) list \<Rightarrow> string \<Rightarrow> bool" where
  \<comment> \<open>The field is absent from the dictionary or holds a string that \<open>strip\<close> leaves empty.\<close>
  "blank_field S kvs k =
     (case map_of kvs k of None \<Rightarrow> True | Some (JStr s) \<Rightarrow> strip S s = [] | _ \<Rightarrow> False)"

definition readable :: "request \<Rightarrow> bool" where
  \<comment> \<open>A request from which \<open>get_remedy\<close> can read its parameter: a GET, or a POST whose body is
      empty for Python, or an object in which \<open>disease\<close> is absent or a string.\<close>
  "readable req =
     (req_method req = GET
      \<or> (case get_json req of JObj kvs \<Rightarrow> text_field kvs ''disease'' | j \<Rightarrow> \<not> truthy j))"

definition outbreak_report ::
  "str_methods \<Rightarrow> cell list \<Rightarrow> cell list \<Rightarrow> cell list \<Rightarrow> string \<Rightarrow> string
    \<Rightarrow> string response" where
  \<comment> \<open>The answer of the outbreak lookup in terms of the matching rows.\<close>
  "outbreak_report S st di dis state district =
     (if matching_rows S st di state district = []
      then (good_news_message S state district, 200)
      else (alert_message S state district
              (disease_text S (matching_diseases S st di dis state district)), 200))"

definition remedy_report ::
  "str_methods \<Rightarrow> cell list \<Rightarrow> cell list \<Rightarrow> string \<Rightarrow> json response" where
  \<comment> \<open>The answer of the remedy lookup in terms of the matching rows.\<close>
  "remedy_report S dcol rcol q =
     (if matching_keys S dcol q = [] then (remedy_body S q [none_found], 200)
      else if matching_remedies S dcol rcol q = [] then (remedy_body S q [none_listed], 200)
      else (remedy_body S q (first_appearance (matching_remedies S dcol rcol q)), 200))"

section \<open>Example tables\<close>

text \<open>
  The strings of the examples are ASCII; the handlers are evaluated on them with the
  methods on ASCII text, which is what Python computes there. The two date columns, which
  no handler reads, stand with all their dates missing.
\<close>

definition ex_states :: "cell list" where
  "ex_states = [Str ''Kerala'', Str ''Kerala'', Str ''Kerala '', NaN, Str ''Goa'', Str ''Goa'']"

definition ex_districts :: "cell list" where
  "ex_districts =
     [Str ''Wayanad'', Str ''Wayanad'', Str ''Idukki'', Str ''Pune'', Str ''Panaji'', Str ''Margao'']"

definition ex_diseases :: "cell list" where
  "ex_diseases =
     [Str ''Dengue'', Str '' acute diarrhoeal disease'', Str ''Malaria'', Str ''Cholera'',
      Str ''  '', NaN]"

definition ex_data :: dataframe where
  "ex_data =
     [(''Name of State/UT'', Text ex_states),
      (''Name of District'', Text ex_districts),
      (''Disease/Illness'', Text ex_diseases),
      (''Date of Start of Outbreak'', Numeric [None, None, None, None, None, None]),
      (''Date of Reporting'', Numeric [None, None, None, None, None, None])]"

definition ex_null_states :: dataframe where
  \<comment> \<open>An outbreak file in which no row has a state: the column is read as numeric.\<close>
  "ex_null_states =
     [(''Name of State/UT'', Numeric [None, None]),
      (''Name of District'', Text [Str ''Wayanad'', Str ''Idukki'']),
      (''Disease/Illness'', Text [Str ''Dengue'', Str ''Malaria'']),
      (''Date of Start of Outbreak'', Numeric [None, None]),
      (''Date of Reporting'', Numeric [None, None])]"

definition ex_keys :: "cell list" where
  "ex_keys =
     [Str ''Dengue'', Str ''Dengue'', Str ''Dengue'', NaN, Str ''Malaria'', Str ''Cough'',
      Str '' Fever'']"

definition ex_texts :: "cell list" where
  "ex_texts =
     [Str ''Papaya leaf extract'', Str ''Papaya leaf extract'', Str ''Giloy juice'',
      Str ''Tulsi'', NaN, Str ''  '', Str ''Ginger tea'']"

definition ex_remedy_data :: dataframe where
  "ex_remedy_data = [(''Disease'', Text ex_keys), (''Remedy'', Text ex_texts)]"

definition ex_null_keys :: dataframe where
  \<comment> \<open>A remedy file in which no row has a disease: the column is read as numeric.\<close>
  "ex_null_keys =
     [(''Disease'', Numeric [None, None]), (''Remedy'', Text [Str ''Tulsi'', Str ''Ginger tea''])]"

definition ex_no_key_column :: dataframe where
  "ex_no_key_column = [(''Remedy'', Text ex_texts)]"

definition ex_no_text_column :: dataframe where
  "ex_no_text_column = [(''Disease'', Text ex_keys)]"

definition get_req :: "(string \<times> string) list \<Rightarrow> request" where
  "get_req qs = \<lparr>req_method = GET, get_json = JNull, args = qs\<rparr>"

definition post_req :: "json \<Rightarrow> request" where
  "post_req content = \<lparr>req_method = POST, get_json = content, args = []\<rparr>"

section \<open>Facts about the table operations\<close>

lemma getitem_Some: "getitem df name = Inr col \<longleftrightarrow> map_of df name = Some col"
  by (simp add: getitem_def split: option.splits)

lemma getitem_columns: "getitem df name = Inr col \<Longrightarrow> name \<in> set (columns df)"
  by (auto simp: getitem_Some columns_def dest!: map_of_SomeD intro: rev_image_eqI)

lemma getitem_nonempty: "getitem df name = Inr col \<Longrightarrow> df \<noteq> []"
  by (auto simp: getitem_def)

lemma getitem_bool_index:
  "getitem (bool_index df m) name =
     (case getitem df name of Inl e \<Rightarrow> Inl e | Inr col \<Rightarrow> Inr (take_rows m col))"
  by (induction df) (auto simp: getitem_def bool_index_def split: option.splits)

lemma wf_frame_length: "wf_frame df \<Longrightarrow> getitem df name = Inr col \<Longrightarrow> len col = nrows df"
  by (auto simp: wf_frame_def getitem_Some list_all_iff dest!: map_of_SomeD)

lemma select_no_True: "True \<notin> set m \<Longrightarrow> select m xs = []"
  unfolding select_def
  by (induction m arbitrary: xs) (auto simp: zip_Cons1 split: list.splits)

lemma select_Nil_iff: "length m = length xs \<Longrightarrow> select m xs = [] \<longleftrightarrow> True \<notin> set m"
  unfolding select_def
  by (induction m xs rule: list_induct2) auto

lemma select_map: "select (map f xs) ys = map snd (filter (\<lambda>(x, y). f x) (zip xs ys))"
  unfolding select_def
  by (induction xs arbitrary: ys) (auto simp: zip_Cons1 split: list.splits)

lemma len_take_rows_no_True: "True \<notin> set m \<Longrightarrow> len (take_rows m col) = 0"
  by (cases col) (simp_all add: select_no_True)

lemma len_take_rows_0_iff:
  "length m = len col \<Longrightarrow> len (take_rows m col) = 0 \<longleftrightarrow> True \<notin> set m"
  by (cases col) (simp_all add: select_Nil_iff)

lemma empty_bool_index_no_True: "True \<notin> set m \<Longrightarrow> empty (bool_index df m)"
  by (cases df) (auto simp: empty_def nrows_def bool_index_def len_take_rows_no_True)

lemma empty_bool_index:
  "df \<noteq> [] \<Longrightarrow> length m = nrows df \<Longrightarrow> empty (bool_index df m) \<longleftrightarrow> True \<notin> set m"
  by (cases df) (auto simp: empty_def nrows_def bool_index_def len_take_rows_0_iff)

lemma eq_scalar_lower:
  "eq_scalar (map (\<lambda>c. case c of NaN \<Rightarrow> NaN | Str s \<Rightarrow> Str (lower S s)) cs) q
     = map (\<lambda>c. key_match S c q) cs"
  by (auto simp: eq_scalar_def key_match_def split: cell.splits)

lemma eq_scalar_fillna:
  "q \<noteq> [] \<Longrightarrow>
   eq_scalar (fillna [] (map (\<lambda>c. case c of NaN \<Rightarrow> NaN | Str s \<Rightarrow> Str (lower S s)) cs)) q
     = map (\<lambda>c. key_match S c q) cs"
  by (auto simp: eq_scalar_def fillna_def key_match_def split: cell.splits)

lemma key_mask_text:
  "getitem df name = Inr (Text cs) \<Longrightarrow> key_mask S df name v = Inr (map (\<lambda>c. key_match S c v) cs)"
  by (simp add: key_mask_def eq_scalar_lower)

lemma outbreak_mask_eq:
  "getitem df ''Name of State/UT'' = Inr (Text st) \<Longrightarrow>
   getitem df ''Name of District'' = Inr (Text di) \<Longrightarrow>
   outbreak_mask S df state district =
     Inr (map (\<lambda>(s, d). key_match S s state \<and> key_match S d district) (zip st di))"
  by (auto simp: outbreak_mask_def key_mask_text mask_and_def zip_map_map)

lemma remedy_mask_eq:
  "getitem df ''Disease'' = Inr (Text cs) \<Longrightarrow> q \<noteq> [] \<Longrightarrow>
   remedy_mask S df q = Inr (map (\<lambda>c. key_match S c q) cs)"
  by (simp add: remedy_mask_def eq_scalar_fillna)

lemma no_True_matching_rows:
  "True \<notin> set (map (\<lambda>(s, d). key_match S s state \<and> key_match S d district) (zip st di))
     \<longleftrightarrow> matching_rows S st di state district = []"
  by (auto simp: matching_rows_def filter_empty_conv)

lemma no_True_matching_keys:
  "True \<notin> set (map (\<lambda>c. key_match S c q) dcol) \<longleftrightarrow> matching_keys S dcol q = []"
  by (auto simp: matching_keys_def filter_empty_conv)

lemma good_news_not_alert: "good_news_message S s d \<noteq> alert_message S' s' d' x"
  by (simp add: good_news_message_def alert_message_def check_mark_def warning_sign_def)

lemma select_outbreak:
  "select (map (\<lambda>(s, d). key_match S s state \<and> key_match S d district) (zip st di)) dis
     = map snd (filter (\<lambda>((s, d), x). key_match S s state \<and> key_match S d district)
         (zip (zip st di) dis))"
  by (simp add: select_map case_prod_unfold)

lemma select_remedy:
  "select (map (\<lambda>c. key_match S c q) dcol) rcol
     = map snd (filter (\<lambda>(d, r). key_match S d q) (zip dcol rcol))"
  by (simp add: select_map)

lemma matching_remedies_keys:
  "matching_remedies S dcol rcol q \<noteq> [] \<Longrightarrow> matching_keys S dcol q \<noteq> []"
  by (auto simp: matching_remedies_def matching_keys_def present_def filter_empty_conv
      dest: set_zip_leftD)

subsection \<open>Deduplication\<close>

lemma set_uniq_from: "set (uniq_from seen xs) = set xs - set seen"
  by (induction xs arbitrary: seen) auto

lemma distinct_uniq_from: "distinct (uniq_from seen xs)"
  by (induction xs arbitrary: seen) (auto simp: set_uniq_from)

lemma set_unique: "set (unique xs) = set xs"
  by (simp add: unique_def set_uniq_from)

lemma distinct_unique: "distinct (unique xs)"
  by (simp add: unique_def distinct_uniq_from)

lemma unique_Nil_iff: "unique xs = [] \<longleftrightarrow> xs = []"
  using set_unique [of xs] by (metis set_empty)

lemma length_unique: "length (unique xs) = card (set xs)"
  using distinct_card [OF distinct_unique, of xs] by (simp add: set_unique)

lemma sort_unique: "sort (unique xs) = sorted_list_of_set (set xs)"
proof -
  have "sorted_list_of_set (set (sort (unique xs))) = sort (unique xs)"
    by (rule sorted_list_of_set.idem_if_sorted_distinct) (simp_all add: distinct_unique)
  then show ?thesis
    by (simp add: set_unique)
qed

lemma uniq_from_snoc:
  "uniq_from seen (xs @ [x]) = uniq_from seen xs @ (if x \<in> set seen \<union> set xs then [] else [x])"
  by (induction xs arbitrary: seen) auto

lemma first_appearance_snoc:
  "first_appearance (xs @ [x]) = first_appearance xs @ (if x \<in> set xs then [] else [x])"
proof -
  have "filter (\<lambda>i. (xs @ [x]) ! i \<notin> set (take i (xs @ [x]))) [0..<length xs]
      = filter (\<lambda>i. xs ! i \<notin> set (take i xs)) [0..<length xs]"
    by (rule filter_cong) (auto simp: nth_append)
  moreover have "map (\<lambda>i. (xs @ [x]) ! i) (filter (\<lambda>i. xs ! i \<notin> set (take i xs)) [0..<length xs])
      = map (\<lambda>i. xs ! i) (filter (\<lambda>i. xs ! i \<notin> set (take i xs)) [0..<length xs])"
    by (rule map_cong) (auto simp: nth_append)
  ultimately show ?thesis
    by (simp add: first_appearance_def)
qed

lemma unique_first_appearance: "unique xs = first_appearance xs"
proof (induction xs rule: rev_induct)
  case Nil
  show ?case by (simp add: unique_def first_appearance_def)
next
  case (snoc x xs)
  then show ?case
    using uniq_from_snoc [of "[]" xs x]
    by (simp add: unique_def first_appearance_snoc)
qed

lemma first_appearance_Nil_iff: "first_appearance xs = [] \<longleftrightarrow> xs = []"
  by (simp only: unique_first_appearance [symmetric] unique_Nil_iff)

subsection \<open>The two lookups in terms of the matching rows\<close>

lemma outbreak_response_eq:
  assumes "wf_frame df"
    and "getitem df ''Name of State/UT'' = Inr (Text st)"
    and "getitem df ''Name of District'' = Inr (Text di)"
    and "getitem df ''Disease/Illness'' = Inr (Text dis)"
  shows "get_outbreak_response S df state district = outbreak_report S st di dis state district"
proof -
  let ?m = "map (\<lambda>(s, d). key_match S s state \<and> key_match S d district) (zip st di)"
  let ?texts = "matching_diseases S st di dis state district"
  have m: "outbreak_mask S df state district = Inr ?m"
    using assms(2,3) by (rule outbreak_mask_eq)
  have len: "length st = nrows df" "length di = nrows df"
    using wf_frame_length [OF assms(1,2)] wf_frame_length [OF assms(1,3)] by simp_all
  have "df \<noteq> []"
    using assms(2) by (rule getitem_nonempty)
  moreover have "length ?m = nrows df"
    using len by simp
  ultimately have "empty (bool_index df ?m) \<longleftrightarrow> True \<notin> set ?m"
    by (rule empty_bool_index)
  then have e: "empty (bool_index df ?m) \<longleftrightarrow> matching_rows S st di state district = []"
    by (simp only: no_True_matching_rows)
  have col: "getitem (bool_index df ?m) ''Disease/Illness'' = Inr (Text (select ?m dis))"
    by (simp add: getitem_bool_index assms(4))
  have texts: "present (select ?m dis) = ?texts"
    by (simp only: select_outbreak matching_diseases_def)
  have ds: "sort (unique (map (title S \<circ> strip S) ?texts)) = listed_diseases S ?texts"
    by (simp add: listed_diseases_def sort_unique image_image)
  have "outbreak_try S df state district =
      Inr (if matching_rows S st di state district = [] then good_news_message S state district
           else alert_message S state district (disease_text S ?texts))"
    unfolding outbreak_try_def m
    by (simp add: e col texts ds str_title_def disease_text_def Let_def)
  then show ?thesis
    by (simp add: get_outbreak_response_def outbreak_report_def)
qed

lemma remedy_try_eq:
  assumes "wf_frame df"
    and "getitem df ''Disease'' = Inr (Text dcol)"
    and "getitem df ''Remedy'' = Inr (Text rcol)"
    and "q \<noteq> []"
  shows "remedy_try S df q = Inr (remedy_report S dcol rcol q)"
proof -
  let ?m = "map (\<lambda>c. key_match S c q) dcol"
  have m: "remedy_mask S df q = Inr ?m"
    using assms(2,4) by (rule remedy_mask_eq)
  have c: "''Disease'' \<in> set (columns df)"
    using assms(2) by (rule getitem_columns)
  have "df \<noteq> []"
    using assms(2) by (rule getitem_nonempty)
  moreover have "length ?m = nrows df"
    using wf_frame_length [OF assms(1,2)] by simp
  ultimately have "empty (bool_index df ?m) \<longleftrightarrow> True \<notin> set ?m"
    by (rule empty_bool_index)
  then have e: "empty (bool_index df ?m) \<longleftrightarrow> matching_keys S dcol q = []"
    by (simp only: no_True_matching_keys)
  have col: "getitem (bool_index df ?m) ''Remedy'' = Inr (Text (select ?m rcol))"
    by (simp add: getitem_bool_index assms(3))
  have texts: "present (select ?m rcol) = matching_remedies S dcol rcol q"
    by (simp only: select_remedy matching_remedies_def)
  show ?thesis
    unfolding remedy_try_def m
    by (simp add: c e col texts first_appearance_Nil_iff unique_first_appearance
        remedy_report_def remedy_body_def Let_def)
qed

lemma get_remedy_eq:
  "remedy_input S req = Inr (Inr q) \<Longrightarrow> q \<noteq> [] \<Longrightarrow>
   get_remedy S df req =
     (case remedy_try S df q of
        Inr r \<Rightarrow> Inr r
      | Inl e \<Rightarrow> Inr (remedy_body S q [search_failed], 500))"
  by (simp add: get_remedy_def)

lemma remedy_input_get:
  "req_method req = GET \<Longrightarrow>
   remedy_input S req = Inr (Inr (lower S (strip S (args_get (args req) ''disease'' []))))"
  by (simp add: remedy_input_def)

lemma remedy_input_post:
  "req_method req = POST \<Longrightarrow> get_json req = JObj kvs \<Longrightarrow> map_of kvs ''disease'' = Some (JStr a) \<Longrightarrow>
   remedy_input S req = Inr (Inr (lower S (strip S a)))"
  by (auto simp: remedy_input_def Let_def)

lemma check_outbreak_post:
  "get_json req = JObj kvs \<Longrightarrow> map_of kvs ''state'' = Some (JStr a) \<Longrightarrow>
   map_of kvs ''district'' = Some (JStr b) \<Longrightarrow>
   lower S (strip S a) \<noteq> [] \<Longrightarrow> lower S (strip S b) \<noteq> [] \<Longrightarrow>
   check_outbreak S df req
     = Inr (get_outbreak_response S df (lower S (strip S a)) (lower S (strip S b)))"
  by (auto simp: check_outbreak_def Let_def)

subsection \<open>The example tables\<close>

lemma ex_data_columns:
  "wf_frame ex_data"
  "getitem ex_data ''Name of State/UT'' = Inr (Text ex_states)"
  "getitem ex_data ''Name of District'' = Inr (Text ex_districts)"
  "getitem ex_data ''Disease/Illness'' = Inr (Text ex_diseases)"
  by (simp_all add: wf_frame_def nrows_def getitem_def ex_data_def ex_states_def
      ex_districts_def ex_diseases_def)

lemma ex_remedy_data_columns:
  "wf_frame ex_remedy_data"
  "getitem ex_remedy_data ''Disease'' = Inr (Text ex_keys)"
  "getitem ex_remedy_data ''Remedy'' = Inr (Text ex_texts)"
  by (simp_all add: wf_frame_def nrows_def getitem_def ex_remedy_data_def ex_keys_def
      ex_texts_def)

lemma remedy_input_get_req:
  "remedy_input S (get_req [(''disease'', v)]) = Inr (Inr (lower S (strip S v)))"
  by (simp add: remedy_input_def get_req_def args_get_def)

lemma ascii_str_laws: "str_laws ascii_str"
  by (simp add: str_laws_def ascii_str_def ascii_strip_def ascii_lower_def)

section \<open>The outbreak lookup without a matching row\<close>

text \<open>
  C8, as the code has it. When the state and district columns of the outbreak table are
  text columns and no row matches the pair \<open>(state, district)\<close>, \<open>get_outbreak_response\<close>
  answers 200 with the reassuring message, which names the district and the state and
  points to the remedies section; what it returns is not the alert message, whatever the
  disease list.
\<close>

theorem no_match_good_news:
  assumes "getitem df ''Name of State/UT'' = Inr (Text st)"
    and "getitem df ''Name of District'' = Inr (Text di)"
    and "matching_rows S st di state district = []"
  shows "get_outbreak_response S df state district = (good_news_message S state district, 200)
       \<and> (\<forall>x. fst (get_outbreak_response S df state district)
              \<noteq> alert_message S state district x)"
proof -
  let ?m = "map (\<lambda>(s, d). key_match S s state \<and> key_match S d district) (zip st di)"
  have m: "outbreak_mask S df state district = Inr ?m"
    using assms(1,2) by (rule outbreak_mask_eq)
  have "True \<notin> set ?m"
    using assms(3) by (simp only: no_True_matching_rows)
  then have "empty (bool_index df ?m)"
    by (rule empty_bool_index_no_True)
  then have "outbreak_try S df state district = Inr (good_news_message S state district)"
    by (simp add: outbreak_try_def m)
  then have "get_outbreak_response S df state district = (good_news_message S state district, 200)"
    by (simp add: get_outbreak_response_def)
  then show ?thesis
    by (simp add: good_news_not_alert)
qed

theorem no_match_good_news_witness:
  "get_outbreak_response ascii_str ex_data ''kerala'' ''idukki''
     = (good_news_message ascii_str ''kerala'' ''idukki'', 200)
   \<and> (\<forall>x. fst (get_outbreak_response ascii_str ex_data ''kerala'' ''idukki'')
         \<noteq> alert_message ascii_str ''kerala'' ''idukki'' x)"
proof -
  have c: "matching_rows ascii_str ex_states ex_districts ''kerala'' ''idukki'' = []"
    by code_simp
  show ?thesis
    using no_match_good_news [OF ex_data_columns(2,3) c] .
qed

text \<open>
  C8 as stated fails on an outbreak table in which no row has a state: the column is
  numeric, the filter raises, and the answer to every pair, none of which has a matching
  row, is the error message with status 500.
\<close>

theorem null_state_column_counterexample:
  "getitem ex_null_states ''Name of State/UT'' = Inr (Numeric [None, None])
   \<and> get_outbreak_response ascii_str ex_null_states ''kerala'' ''wayanad''
       = (outbreak_error_message ascii_str ''kerala'' ''wayanad'', 500)
   \<and> outbreak_error_message ascii_str ''kerala'' ''wayanad''
       \<noteq> good_news_message ascii_str ''kerala'' ''wayanad''"
  by code_simp

section \<open>The disease list of the alert\<close>

text \<open>
  C3, as the code has it. When the outbreak table is well formed, its state, district and
  disease columns are text columns, and at least one row matches \<open>(state, district)\<close>, the
  answer is the alert message, status 200, whose disease list is made of the disease names
  present in the matching rows: each trimmed and title-cased, duplicates removed, sorted
  ascending, joined with a comma and a space. When no matching row has a disease name (all
  are missing), the list is the phrase \<open>unspecified diseases\<close>.
\<close>

theorem alert_disease_list:
  assumes "wf_frame df"
    and "getitem df ''Name of State/UT'' = Inr (Text st)"
    and "getitem df ''Name of District'' = Inr (Text di)"
    and "getitem df ''Disease/Illness'' = Inr (Text dis)"
    and "matching_rows S st di state district \<noteq> []"
  shows "get_outbreak_response S df state district =
           (alert_message S state district
              (disease_text S (matching_diseases S st di dis state district)), 200)
       \<and> (matching_diseases S st di dis state district = [] \<longrightarrow>
            get_outbreak_response S df state district =
              (alert_message S state district ''unspecified diseases'', 200))"
proof -
  have r: "get_outbreak_response S df state district =
      (alert_message S state district
         (disease_text S (matching_diseases S st di dis state district)), 200)"
    using assms(5) by (simp add: outbreak_response_eq [OF assms(1-4)] outbreak_report_def)
  have "disease_text S [] = ''unspecified diseases''"
    by (simp add: disease_text_def listed_diseases_def)
  then show ?thesis
    using r by simp
qed

theorem alert_disease_list_witness:
  "get_outbreak_response ascii_str ex_data ''kerala'' ''wayanad''
     = (alert_message ascii_str ''kerala'' ''wayanad'' ''Acute Diarrhoeal Disease, Dengue'', 200)
   \<and> get_outbreak_response ascii_str ex_data ''goa'' ''margao''
     = (alert_message ascii_str ''goa'' ''margao'' ''unspecified diseases'', 200)"
proof -
  have a: "matching_rows ascii_str ex_states ex_districts ''kerala'' ''wayanad'' \<noteq> []"
    by code_simp
  have b: "disease_text ascii_str
        (matching_diseases ascii_str ex_states ex_districts ex_diseases ''kerala'' ''wayanad'')
      = ''Acute Diarrhoeal Disease, Dengue''"
    by code_simp
  have c: "matching_rows ascii_str ex_states ex_districts ''goa'' ''margao'' \<noteq> []"
    by code_simp
  have d: "matching_diseases ascii_str ex_states ex_districts ex_diseases ''goa'' ''margao'' = []"
    by code_simp
  have "get_outbreak_response ascii_str ex_data ''kerala'' ''wayanad''
      = (alert_message ascii_str ''kerala'' ''wayanad'' ''Acute Diarrhoeal Disease, Dengue'', 200)"
    using alert_disease_list [OF ex_data_columns a] by (simp only: b)
  moreover have "get_outbreak_response ascii_str ex_data ''goa'' ''margao''
      = (alert_message ascii_str ''goa'' ''margao'' ''unspecified diseases'', 200)"
    using alert_disease_list [OF ex_data_columns c] d by blast
  ultimately show ?thesis
    by (rule conjI)
qed

text \<open>
  C3 as stated fails on a blank disease name: the only row of Panaji, Goa has the name of
  two spaces, and the disease list of the alert is the empty string, not the phrase.
\<close>

theorem blank_disease_counterexample:
  "matching_diseases ascii_str ex_states ex_districts ex_diseases ''goa'' ''panaji'' = [''  '']
   \<and> strip ascii_str ''  '' = []
   \<and> get_outbreak_response ascii_str ex_data ''goa'' ''panaji''
       = (alert_message ascii_str ''goa'' ''panaji'' [], 200)
   \<and> alert_message ascii_str ''goa'' ''panaji'' []
       \<noteq> alert_message ascii_str ''goa'' ''panaji'' ''unspecified diseases''"
  by code_simp

section \<open>The remedy list\<close>

text \<open>
  C4, as the code has it. When the remedy table is well formed and has its two columns, the
  request carries a non-empty disease name, and the rows that match it hold at least one
  remedy text, the answer is 200 with the title-cased name and the remedy texts of the
  matching rows, each text once, in the order of its first appearance in the table; their
  number is the number of distinct texts.
\<close>

theorem remedies_first_appearance:
  assumes "wf_frame df"
    and "getitem df ''Disease'' = Inr (Text dcol)"
    and "getitem df ''Remedy'' = Inr (Text rcol)"
    and "remedy_input S req = Inr (Inr q)"
    and "q \<noteq> []"
    and "matching_remedies S dcol rcol q \<noteq> []"
  shows "get_remedy S df req =
           Inr (remedy_body S q (first_appearance (matching_remedies S dcol rcol q)), 200)
       \<and> distinct (first_appearance (matching_remedies S dcol rcol q))
       \<and> length (first_appearance (matching_remedies S dcol rcol q))
           = card (set (matching_remedies S dcol rcol q))"
proof -
  have k: "matching_keys S dcol q \<noteq> []"
    using assms(6) by (rule matching_remedies_keys)
  have "remedy_try S df q =
      Inr (remedy_body S q (first_appearance (matching_remedies S dcol rcol q)), 200)"
    using assms(6) k by (simp add: remedy_try_eq [OF assms(1,2,3,5)] remedy_report_def)
  then have "get_remedy S df req =
      Inr (remedy_body S q (first_appearance (matching_remedies S dcol rcol q)), 200)"
    by (simp add: get_remedy_eq [OF assms(4,5)])
  then show ?thesis
    using distinct_unique [of "matching_remedies S dcol rcol q"]
      length_unique [of "matching_remedies S dcol rcol q"]
    by (simp add: unique_first_appearance)
qed

theorem remedies_first_appearance_witness:
  "get_remedy ascii_str ex_remedy_data (get_req [(''disease'', '' DENGUE'')])
     = Inr (remedy_body ascii_str ''dengue'' [''Papaya leaf extract'', ''Giloy juice''], 200)"
proof -
  have q: "lower ascii_str (strip ascii_str '' DENGUE'') = ''dengue''"
    by code_simp
  have i: "remedy_input ascii_str (get_req [(''disease'', '' DENGUE'')]) = Inr (Inr ''dengue'')"
    by (simp only: remedy_input_get_req q)
  have n: "''dengue'' \<noteq> []"
    by simp
  have t: "matching_remedies ascii_str ex_keys ex_texts ''dengue''
      = [''Papaya leaf extract'', ''Papaya leaf extract'', ''Giloy juice'']"
    by code_simp
  have f: "first_appearance [''Papaya leaf extract'', ''Papaya leaf extract'', ''Giloy juice'']
      = [''Papaya leaf extract'', ''Giloy juice'']"
    by code_simp
  have m: "matching_remedies ascii_str ex_keys ex_texts ''dengue'' \<noteq> []"
    by (simp add: t)
  show ?thesis
    using remedies_first_appearance [OF ex_remedy_data_columns i n m]
    by (simp add: t f)
qed

text \<open>
  C4 as stated fails when no matching row has a remedy text: the number of distinct texts
  is 0 and the list that is returned has one entry.
\<close>

theorem no_text_one_entry_counterexample:
  "matching_keys ascii_str ex_keys ''malaria'' = [Str ''Malaria'']
   \<and> card (set (matching_remedies ascii_str ex_keys ex_texts ''malaria'')) = 0
   \<and> get_remedy ascii_str ex_remedy_data (get_req [(''disease'', ''malaria'')])
       = Inr (JObj [(''disease'', JStr ''Malaria''), (''remedies'', JArr [JStr none_listed])], 200)"
  by code_simp

section \<open>Matching rows without a remedy text\<close>




section \<open>A remedy table without a column\<close>

text \<open>
  C2, as the code has it. The column whose absence is detected is the disease column: when
  the remedy table has no column \<open>Disease\<close> and the request carries a non-empty disease name,
  the answer is 500 with the title-cased name and the message of a data format issue that
  names the missing column.
\<close>

theorem missing_key_column:
  assumes "''Disease'' \<notin> set (columns df)"
    and "remedy_input S req = Inr (Inr q)"
    and "q \<noteq> []"
  shows "get_remedy S df req = Inr (remedy_body S q [format_issue], 500)"
  using assms(1) by (simp add: get_remedy_eq [OF assms(2,3)] remedy_try_def)

theorem missing_key_column_witness:
  "get_remedy ascii_str ex_no_key_column (get_req [(''disease'', ''dengue'')])
     = Inr (remedy_body ascii_str ''dengue'' [format_issue], 500)"
proof -
  have c: "''Disease'' \<notin> set (columns ex_no_key_column)"
    by (simp add: columns_def ex_no_key_column_def)
  have q: "lower ascii_str (strip ascii_str ''dengue'') = ''dengue''"
    by code_simp
  have i: "remedy_input ascii_str (get_req [(''disease'', ''dengue'')]) = Inr (Inr ''dengue'')"
    by (simp only: remedy_input_get_req q)
  have n: "''dengue'' \<noteq> []"
    by simp
  show ?thesis
    using missing_key_column [OF c i n] .
qed

text \<open>
  C2 as stated fails: without the remedy text column the answer for a disease of the table
  is the generic failure message, and for a disease that is not in the table it is 200.
\<close>

theorem missing_text_column_counterexample:
  "''Remedy'' \<notin> set (columns ex_no_text_column)
   \<and> get_remedy ascii_str ex_no_text_column (get_req [(''disease'', ''dengue'')])
       = Inr (JObj [(''disease'', JStr ''Dengue''), (''remedies'', JArr [JStr search_failed])], 500)
   \<and> search_failed \<noteq> format_issue
   \<and> get_remedy ascii_str ex_no_text_column (get_req [(''disease'', ''typhoid'')])
       = Inr (JObj [(''disease'', JStr ''Typhoid''), (''remedies'', JArr [JStr none_found])], 200)"
  by code_simp

section \<open>The shape of the remedy answers\<close>

lemma is_listing_remedy_json: "is_listing (remedy_json S q js)"
  by (simp add: is_listing_def remedy_json_def)

lemma is_structured_remedy_json: "is_structured (remedy_json S q js) \<longleftrightarrow> list_all is_str js"
  by (simp add: is_structured_def remedy_json_def)

lemma is_structured_remedy_body: "is_structured (remedy_body S q l)"
  by (simp add: is_structured_remedy_json remedy_body_def list_all_iff)

lemma is_listing_remedy_body: "is_listing (remedy_body S q l)"
  by (simp add: remedy_body_def is_listing_remedy_json)

lemma list_all_is_str_tolist:
  "\<not> numeric_column df name \<Longrightarrow> getitem df name = Inr col \<Longrightarrow>
   list_all is_str (unique_tolist (dropna (take_rows m col)))"
  by (cases col) (simp_all add: numeric_column_def list_all_iff)

lemma remedy_try_shape:
  "remedy_try S df q = Inr (b, st) \<Longrightarrow>
   (st = 200 \<or> st = 500) \<and> is_listing b \<and> (\<not> numeric_column df ''Remedy'' \<longrightarrow> is_structured b)"
  by (auto simp: remedy_try_def Let_def getitem_bool_index is_listing_remedy_body
      is_structured_remedy_body is_listing_remedy_json is_structured_remedy_json
      list_all_is_str_tolist split: if_splits sum.splits)

lemma readable_input:
  "readable req \<Longrightarrow>
   remedy_input S req = Inr (Inl (error_body ''No JSON data received.'', 400))
   \<or> (\<exists>q. remedy_input S req = Inr (Inr q))"
  by (cases "req_method req"; cases "get_json req")
    (auto simp: readable_def remedy_input_def text_field_def Let_def
      split: option.splits json.splits)

text \<open>
  C5, as the code has it. A request is readable when it is a GET, or a POST whose parsed
  body is empty for Python or is an object in which \<open>disease\<close> is absent or a string. The
  answer of \<open>get_remedy\<close> to a readable request is a response of the handler: either status
  400 with a dictionary of the single field \<open>error\<close>, or status 200 or 500 with a
  dictionary of the disease name and a list of remedies, whose entries are strings unless
  the remedy column of the table is numeric.
\<close>

theorem remedy_response_shape:
  assumes "readable req"
  shows "\<exists>b st. get_remedy S df req = Inr (b, st)
     \<and> (if st = 400
        then b = error_body ''No JSON data received.''
             \<or> b = error_body ''Disease parameter is required.''
        else (st = 200 \<or> st = 500) \<and> is_listing b
             \<and> (\<not> numeric_column df ''Remedy'' \<longrightarrow> is_structured b))"
proof -
  from readable_input [OF assms, of S] consider
      (early) "remedy_input S req = Inr (Inl (error_body ''No JSON data received.'', 400))"
    | (read) q where "remedy_input S req = Inr (Inr q)"
    by blast
  then show ?thesis
  proof cases
    case early
    then show ?thesis by (simp add: get_remedy_def)
  next
    case (read q)
    show ?thesis
    proof (cases "q = []")
      case True
      then show ?thesis using read by (simp add: get_remedy_def)
    next
      case False
      show ?thesis
      proof (cases "remedy_try S df q")
        case (Inl e)
        then show ?thesis
          using read False
          by (simp add: get_remedy_def is_listing_remedy_body is_structured_remedy_body)
      next
        case (Inr r)
        obtain b st where r: "r = (b, st)"
          by (cases r)
        from remedy_try_shape [of S df q b st] Inr r
        have "(st = 200 \<or> st = 500) \<and> is_listing b
            \<and> (\<not> numeric_column df ''Remedy'' \<longrightarrow> is_structured b)"
          by simp
        moreover have "get_remedy S df req = Inr (b, st)"
          using read False Inr r by (simp add: get_remedy_def)
        ultimately show ?thesis
          by auto
      qed
    qed
  qed
qed

theorem remedy_response_shape_witness:
  "(\<exists>b st. get_remedy ascii_str ex_remedy_data (get_req [(''disease'', '' DENGUE'')]) = Inr (b, st)
     \<and> (if st = 400
        then b = error_body ''No JSON data received.''
             \<or> b = error_body ''Disease parameter is required.''
        else (st = 200 \<or> st = 500) \<and> is_listing b
             \<and> (\<not> numeric_column ex_remedy_data ''Remedy'' \<longrightarrow> is_structured b)))
   \<and> get_remedy ascii_str ex_remedy_data (get_req [(''disease'', '' DENGUE'')])
       = Inr (remedy_body ascii_str ''dengue'' [''Papaya leaf extract'', ''Giloy juice''], 200)"
proof -
  have r: "readable (get_req [(''disease'', '' DENGUE'')])"
    by (simp add: readable_def get_req_def)
  have "get_remedy ascii_str ex_remedy_data (get_req [(''disease'', '' DENGUE'')])
      = Inr (remedy_body ascii_str ''dengue'' [''Papaya leaf extract'', ''Giloy juice''], 200)"
    by code_simp
  then show ?thesis
    using remedy_response_shape [OF r, of ascii_str ex_remedy_data] by blast
qed

text \<open>
  C5 as stated fails on the client errors: the answer to a request without a disease name
  has the field \<open>error\<close> only.
\<close>

theorem error_body_counterexample:
  "get_remedy ascii_str ex_remedy_data (get_req [])
     = Inr (JObj [(''error'', JStr ''Disease parameter is required.'')], 400)
   \<and> \<not> is_structured (JObj [(''error'', JStr ''Disease parameter is required.'')])
   \<and> get_remedy ascii_str ex_remedy_data (post_req (JObj []))
     = Inr (JObj [(''error'', JStr ''No JSON data received.'')], 400)
   \<and> \<not> is_structured (JObj [(''error'', JStr ''No JSON data received.'')])"
  by code_simp

section \<open>The comparison on the filter key\<close>

lemma key_match_iff: "key_match S c v \<longleftrightarrow> (\<exists>s. c = Str s \<and> lower S s = v)"
  by (cases c) (simp_all add: key_match_def)

text \<open>
  C1, as the code has it. Every handler trims and lower-cases the query values it receives
  and passes them to the lookup; the lookup lower-cases the stored keys and does not trim
  them. On well-formed tables whose key and text columns are text columns, the answer of
  each handler to a request with non-empty normalised values is the report on the matching
  rows, where a stored key matches a query value exactly when it is present and its
  lower-cased form equals the trimmed, lower-cased query value.
\<close>

theorem key_comparison:
  assumes "wf_frame df"
    and "getitem df ''Name of State/UT'' = Inr (Text st)"
    and "getitem df ''Name of District'' = Inr (Text di)"
    and "getitem df ''Disease/Illness'' = Inr (Text dis)"
    and "wf_frame rd"
    and "getitem rd ''Disease'' = Inr (Text dcol)"
    and "getitem rd ''Remedy'' = Inr (Text rcol)"
  shows "(key_match S c v \<longleftrightarrow> (\<exists>s. c = Str s \<and> lower S s = v))
   \<and> (lower S (strip S (args_get (args req) ''state'' [])) \<noteq> [] \<longrightarrow>
      lower S (strip S (args_get (args req) ''district'' [])) \<noteq> [] \<longrightarrow>
      test_check S df req
        = Inr (outbreak_report S st di dis
                 (lower S (strip S (args_get (args req) ''state'' [])))
                 (lower S (strip S (args_get (args req) ''district'' [])))))
   \<and> (get_json req = JObj kvs \<longrightarrow> map_of kvs ''state'' = Some (JStr a) \<longrightarrow>
      map_of kvs ''district'' = Some (JStr b) \<longrightarrow>
      lower S (strip S a) \<noteq> [] \<longrightarrow> lower S (strip S b) \<noteq> [] \<longrightarrow>
      check_outbreak S df req
        = Inr (outbreak_report S st di dis (lower S (strip S a)) (lower S (strip S b))))
   \<and> (req_method req = GET \<longrightarrow>
      lower S (strip S (args_get (args req) ''disease'' [])) \<noteq> [] \<longrightarrow>
      get_remedy S rd req
        = Inr (remedy_report S dcol rcol
                 (lower S (strip S (args_get (args req) ''disease'' [])))))
   \<and> (req_method req = POST \<longrightarrow> get_json req = JObj kvs \<longrightarrow>
      map_of kvs ''disease'' = Some (JStr a) \<longrightarrow> lower S (strip S a) \<noteq> [] \<longrightarrow>
      get_remedy S rd req = Inr (remedy_report S dcol rcol (lower S (strip S a))))"
proof (intro conjI impI)
  show "key_match S c v \<longleftrightarrow> (\<exists>s. c = Str s \<and> lower S s = v)"
    by (rule key_match_iff)
next
  assume "lower S (strip S (args_get (args req) ''state'' [])) \<noteq> []"
    and "lower S (strip S (args_get (args req) ''district'' [])) \<noteq> []"
  then show "test_check S df req
        = Inr (outbreak_report S st di dis
                 (lower S (strip S (args_get (args req) ''state'' [])))
                 (lower S (strip S (args_get (args req) ''district'' []))))"
    by (simp add: test_check_def outbreak_response_eq [OF assms(1-4)])
next
  assume "get_json req = JObj kvs" "map_of kvs ''state'' = Some (JStr a)"
    "map_of kvs ''district'' = Some (JStr b)"
    "lower S (strip S a) \<noteq> []" "lower S (strip S b) \<noteq> []"
  then show "check_outbreak S df req
        = Inr (outbreak_report S st di dis (lower S (strip S a)) (lower S (strip S b)))"
    by (simp add: check_outbreak_post outbreak_response_eq [OF assms(1-4)])
next
  assume g: "req_method req = GET"
    and n: "lower S (strip S (args_get (args req) ''disease'' [])) \<noteq> []"
  show "get_remedy S rd req
        = Inr (remedy_report S dcol rcol
                 (lower S (strip S (args_get (args req) ''disease'' []))))"
    by (simp add: get_remedy_eq [OF remedy_input_get [OF g] n] remedy_try_eq [OF assms(5-7) n])
next
  assume p: "req_method req = POST" "get_json req = JObj kvs"
    "map_of kvs ''disease'' = Some (JStr a)"
    and n: "lower S (strip S a) \<noteq> []"
  show "get_remedy S rd req = Inr (remedy_report S dcol rcol (lower S (strip S a)))"
    by (simp add: get_remedy_eq [OF remedy_input_post [OF p] n] remedy_try_eq [OF assms(5-7) n])
qed

theorem key_comparison_witness:
  "test_check ascii_str ex_data (get_req [(''state'', '' KERALA''), (''district'', ''wayanad '')])
     = Inr (alert_message ascii_str ''kerala'' ''wayanad'' ''Acute Diarrhoeal Disease, Dengue'', 200)
   \<and> check_outbreak ascii_str ex_data
       (post_req (JObj [(''state'', JStr ''Goa''), (''district'', JStr ''PUNE'')]))
     = Inr (good_news_message ascii_str ''goa'' ''pune'', 200)
   \<and> get_remedy ascii_str ex_remedy_data (get_req [(''disease'', ''DENGUE '')])
     = Inr (remedy_body ascii_str ''dengue'' [''Papaya leaf extract'', ''Giloy juice''], 200)
   \<and> get_remedy ascii_str ex_remedy_data (post_req (JObj [(''disease'', JStr '' Tulsi'')]))
     = Inr (remedy_body ascii_str ''tulsi'' [none_found], 200)"
proof -
  let ?r1 = "get_req [(''state'', '' KERALA''), (''district'', ''wayanad '')]"
  let ?kv2 = "[(''state'', JStr ''Goa''), (''district'', JStr ''PUNE'')]"
  let ?r3 = "get_req [(''disease'', ''DENGUE '')]"
  let ?kv4 = "[(''disease'', JStr '' Tulsi'')]"
  note T = key_comparison [OF ex_data_columns ex_remedy_data_columns, of ascii_str]
  have n1: "lower ascii_str (strip ascii_str (args_get (args ?r1) ''state'' [])) = ''kerala''"
    "lower ascii_str (strip ascii_str (args_get (args ?r1) ''district'' [])) = ''wayanad''"
    by code_simp+
  have o1: "outbreak_report ascii_str ex_states ex_districts ex_diseases ''kerala'' ''wayanad''
      = (alert_message ascii_str ''kerala'' ''wayanad'' ''Acute Diarrhoeal Disease, Dengue'', 200)"
    by code_simp
  have "test_check ascii_str ex_data ?r1
      = Inr (alert_message ascii_str ''kerala'' ''wayanad'' ''Acute Diarrhoeal Disease, Dengue'', 200)"
    using T [of _ _ ?r1] by (simp add: n1 o1)
  moreover
  have p2: "get_json (post_req (JObj ?kv2)) = JObj ?kv2" "map_of ?kv2 ''state'' = Some (JStr ''Goa'')"
    "map_of ?kv2 ''district'' = Some (JStr ''PUNE'')"
    by (simp_all add: post_req_def)
  have n2: "lower ascii_str (strip ascii_str ''Goa'') = ''goa''"
    "lower ascii_str (strip ascii_str ''PUNE'') = ''pune''"
    by code_simp+
  have o2: "outbreak_report ascii_str ex_states ex_districts ex_diseases ''goa'' ''pune''
      = (good_news_message ascii_str ''goa'' ''pune'', 200)"
    by code_simp
  have "check_outbreak ascii_str ex_data (post_req (JObj ?kv2))
      = Inr (good_news_message ascii_str ''goa'' ''pune'', 200)"
    using T [of _ _ "post_req (JObj ?kv2)" ?kv2 "''Goa''" "''PUNE''"] p2
    by (simp add: n2 o2)
  moreover
  have g3: "req_method ?r3 = GET"
    by (simp add: get_req_def)
  have n3: "lower ascii_str (strip ascii_str (args_get (args ?r3) ''disease'' [])) = ''dengue''"
    by code_simp
  have o3: "remedy_report ascii_str ex_keys ex_texts ''dengue''
      = (remedy_body ascii_str ''dengue'' [''Papaya leaf extract'', ''Giloy juice''], 200)"
    by code_simp
  have "get_remedy ascii_str ex_remedy_data ?r3
      = Inr (remedy_body ascii_str ''dengue'' [''Papaya leaf extract'', ''Giloy juice''], 200)"
    using T [of _ _ ?r3] g3 by (simp add: n3 o3)
  moreover
  have p4: "req_method (post_req (JObj ?kv4)) = POST" "get_json (post_req (JObj ?kv4)) = JObj ?kv4"
    "map_of ?kv4 ''disease'' = Some (JStr '' Tulsi'')"
    by (simp_all add: post_req_def)
  have n4: "lower ascii_str (strip ascii_str '' Tulsi'') = ''tulsi''"
    by code_simp
  have o4: "remedy_report ascii_str ex_keys ex_texts ''tulsi''
      = (remedy_body ascii_str ''tulsi'' [none_found], 200)"
    by code_simp
  have "get_remedy ascii_str ex_remedy_data (post_req (JObj ?kv4))
      = Inr (remedy_body ascii_str ''tulsi'' [none_found], 200)"
    using T [of _ _ "post_req (JObj ?kv4)" ?kv4 "'' Tulsi''"] p4 by (simp add: n4 o4)
  ultimately show ?thesis
    by blast
qed

text \<open>
  C1 as stated fails on a stored value with surrounding whitespace: the stored state
  \<open>Kerala\<close> followed by a space and the query \<open>kerala\<close> are equal after trimming and
  lower-casing both, and the row is not found; likewise the stored disease \<open>Fever\<close>
  preceded by a space.
\<close>

theorem untrimmed_key_counterexample:
  "ex_states ! 2 = Str ''Kerala '' \<and> ex_districts ! 2 = Str ''Idukki''
   \<and> lower ascii_str (strip ascii_str ''Kerala '') = lower ascii_str (strip ascii_str ''kerala'')
   \<and> lower ascii_str (strip ascii_str ''Idukki'') = lower ascii_str (strip ascii_str ''idukki'')
   \<and> test_check ascii_str ex_data (get_req [(''state'', ''kerala''), (''district'', ''idukki'')])
       = Inr (good_news_message ascii_str ''kerala'' ''idukki'', 200)
   \<and> ex_keys ! 6 = Str '' Fever''
   \<and> lower ascii_str (strip ascii_str '' Fever'') = lower ascii_str (strip ascii_str ''fever'')
   \<and> get_remedy ascii_str ex_remedy_data (get_req [(''disease'', ''fever'')])
       = Inr (remedy_body ascii_str ''fever'' [none_found], 200)"
  by code_simp

section \<open>Rows with a missing key\<close>

text \<open>
  C10, as the code has it. When the state and district columns of the outbreak table are
  text columns, the filter of the outbreak lookup is computed without an exception and
  selects no row whose state or district is missing. When the disease column of the remedy
  table is a text column, the filter of the remedy lookup, which the handler calls with a
  non-empty disease name only (an empty name is answered 400 before the table is read),
  is computed without an exception and selects no row whose disease is missing.
\<close>

theorem null_key_no_match:
  "(getitem df ''Name of State/UT'' = Inr (Text st) \<longrightarrow>
    getitem df ''Name of District'' = Inr (Text di) \<longrightarrow>
      (\<exists>m. outbreak_mask S df state district = Inr m
         \<and> length m = min (length st) (length di)
         \<and> (\<forall>i < length m. st ! i = NaN \<or> di ! i = NaN \<longrightarrow> \<not> m ! i)))
   \<and> (getitem df ''Disease'' = Inr (Text dcol) \<longrightarrow> q \<noteq> [] \<longrightarrow>
      (\<exists>m. remedy_mask S df q = Inr m
         \<and> length m = length dcol
         \<and> (\<forall>i < length m. dcol ! i = NaN \<longrightarrow> \<not> m ! i)))
   \<and> (remedy_input S req = Inr (Inr []) \<longrightarrow>
      get_remedy S df req = Inr (error_body ''Disease parameter is required.'', 400))"
  by (auto simp: outbreak_mask_eq remedy_mask_eq key_match_def get_remedy_def)

theorem null_key_no_match_witness:
  "(\<exists>m. outbreak_mask ascii_str ex_data ''kerala'' ''pune'' = Inr m \<and> length m = 6 \<and> \<not> m ! 3)
   \<and> (\<exists>m. remedy_mask ascii_str ex_remedy_data ''dengue'' = Inr m \<and> length m = 7 \<and> \<not> m ! 3)
   \<and> get_remedy ascii_str ex_remedy_data (get_req [(''disease'', ''  '')])
       = Inr (error_body ''Disease parameter is required.'', 400)"
proof -
  have l: "length ex_states = 6" "length ex_districts = 6" "length ex_keys = 7"
    by (simp_all add: ex_states_def ex_districts_def ex_keys_def)
  have c: "ex_states ! 3 = NaN" "ex_keys ! 3 = NaN"
    by (simp_all add: ex_states_def ex_keys_def)
  have n: "''dengue'' \<noteq> []"
    by simp
  obtain m where m: "outbreak_mask ascii_str ex_data ''kerala'' ''pune'' = Inr m"
      "length m = min (length ex_states) (length ex_districts)"
      "\<forall>i < length m. ex_states ! i = NaN \<or> ex_districts ! i = NaN \<longrightarrow> \<not> m ! i"
    using null_key_no_match [of ex_data ex_states ex_districts ascii_str "''kerala''" "''pune''"]
      ex_data_columns(2,3)
    by blast
  have "length m = 6"
    using m(2) l by simp
  moreover from this have "\<not> m ! 3"
    using m(3) c(1) by simp
  ultimately have a: "\<exists>m. outbreak_mask ascii_str ex_data ''kerala'' ''pune'' = Inr m
      \<and> length m = 6 \<and> \<not> m ! 3"
    using m(1) by blast
  obtain r where r: "remedy_mask ascii_str ex_remedy_data ''dengue'' = Inr r"
      "length r = length ex_keys"
      "\<forall>i < length r. ex_keys ! i = NaN \<longrightarrow> \<not> r ! i"
    using null_key_no_match [of ex_remedy_data _ _ ascii_str _ _ ex_keys "''dengue''"]
      ex_remedy_data_columns(2) n
    by blast
  have "length r = 7"
    using r(2) l by simp
  moreover from this have "\<not> r ! 3"
    using r(3) c(2) by simp
  ultimately have b: "\<exists>m. remedy_mask ascii_str ex_remedy_data ''dengue'' = Inr m
      \<and> length m = 7 \<and> \<not> m ! 3"
    using r(1) by blast
  have "lower ascii_str (strip ascii_str ''  '') = []"
    by code_simp
  then have i: "remedy_input ascii_str (get_req [(''disease'', ''  '')]) = Inr (Inr [])"
    by (simp only: remedy_input_get_req)
  have e: "get_remedy ascii_str ex_remedy_data (get_req [(''disease'', ''  '')])
      = Inr (error_body ''Disease parameter is required.'', 400)"
    using null_key_no_match [of ex_remedy_data _ _ ascii_str _ _ _ _ "get_req [(''disease'', ''  '')]"] i
    by blast
  show ?thesis
    using a b e by blast
qed

text \<open>
  C10 as stated fails when every row of the table has the key missing: the column is
  numeric, the filter raises \<open>AttributeError\<close>, and the handler answers 500.
\<close>

theorem null_key_column_counterexample:
  "getitem ex_null_states ''Name of State/UT'' = Inr (Numeric [None, None])
   \<and> outbreak_mask ascii_str ex_null_states ''kerala'' ''wayanad'' = Inl AttributeError
   \<and> test_check ascii_str ex_null_states (get_req [(''state'', ''kerala''), (''district'', ''wayanad'')])
       = Inr (outbreak_error_message ascii_str ''kerala'' ''wayanad'', 500)
   \<and> getitem ex_null_keys ''Disease'' = Inr (Numeric [None, None])
   \<and> remedy_mask ascii_str ex_null_keys ''dengue'' = Inl AttributeError
   \<and> get_remedy ascii_str ex_null_keys (get_req [(''disease'', ''dengue'')])
       = Inr (remedy_body ascii_str ''dengue'' [search_failed], 500)"
  by code_simp

section \<open>Requests without a required parameter\<close>

lemma blank_field_get:
  "str_laws S \<Longrightarrow> text_field kvs k \<Longrightarrow>
   \<exists>s. (case map_of kvs k of None \<Rightarrow> JStr [] | Some v \<Rightarrow> v) = JStr s
      \<and> (blank_field S kvs k \<longleftrightarrow> strip S s = [])"
  by (auto simp: text_field_def blank_field_def str_laws_def split: option.splits json.splits)

lemma blank_field_text: "blank_field S kvs k \<Longrightarrow> text_field kvs k"
  by (auto simp: text_field_def blank_field_def split: option.splits json.splits)

text \<open>
  C7, as the code has it. A required parameter is blank when it is absent or is a string
  that \<open>strip\<close> leaves empty. A GET with a blank parameter, and a POST whose parsed body is
  a non-empty JSON object in which the required parameters are absent or strings and one
  of them is blank, are answered with status 400 and a message that names the required
  parameters. A POST whose parsed body is empty for Python (\<open>null\<close>, the empty object) is
  answered with status 400 and the message that no JSON data was received.
\<close>

theorem missing_parameter_400:
  assumes "str_laws S"
  shows "(get_json req = JObj kvs \<longrightarrow> kvs \<noteq> [] \<longrightarrow> text_field kvs ''state'' \<longrightarrow>
      text_field kvs ''district'' \<longrightarrow>
      blank_field S kvs ''state'' \<or> blank_field S kvs ''district'' \<longrightarrow>
      check_outbreak S df req = Inr (''Error: Both 'state' and 'district' are required.'', 400))
   \<and> (strip S (args_get (args req) ''state'' []) = []
        \<or> strip S (args_get (args req) ''district'' []) = [] \<longrightarrow>
      test_check S df req
        = Inr (''Error: Both 'state' and 'district' query parameters are required.'', 400))
   \<and> (req_method req = POST \<longrightarrow> get_json req = JObj kvs \<longrightarrow> kvs \<noteq> [] \<longrightarrow>
      blank_field S kvs ''disease'' \<longrightarrow>
      get_remedy S df req = Inr (error_body ''Disease parameter is required.'', 400))
   \<and> (req_method req = GET \<longrightarrow> strip S (args_get (args req) ''disease'' []) = [] \<longrightarrow>
      get_remedy S df req = Inr (error_body ''Disease parameter is required.'', 400))
   \<and> (\<not> truthy (get_json req) \<longrightarrow>
      check_outbreak S df req = Inr (''Error: No JSON data received.'', 400))
   \<and> (req_method req = POST \<longrightarrow> \<not> truthy (get_json req) \<longrightarrow>
      get_remedy S df req = Inr (error_body ''No JSON data received.'', 400))"
proof (intro conjI impI)
  have l: "lower S [] = []"
    using assms by (simp add: str_laws_def)
  {
    assume c: "get_json req = JObj kvs" "kvs \<noteq> []"
      and t: "text_field kvs ''state''" "text_field kvs ''district''"
      and b: "blank_field S kvs ''state'' \<or> blank_field S kvs ''district''"
    from blank_field_get [OF assms t(1)] obtain s where
      s: "(case map_of kvs ''state'' of None \<Rightarrow> JStr [] | Some v \<Rightarrow> v) = JStr s"
        "blank_field S kvs ''state'' \<longleftrightarrow> strip S s = []"
      by blast
    from blank_field_get [OF assms t(2)] obtain d where
      d: "(case map_of kvs ''district'' of None \<Rightarrow> JStr [] | Some v \<Rightarrow> v) = JStr d"
        "blank_field S kvs ''district'' \<longleftrightarrow> strip S d = []"
      by blast
    have "lower S (strip S s) = [] \<or> lower S (strip S d) = []"
      using b s(2) d(2) l by auto
    then show "check_outbreak S df req
        = Inr (''Error: Both 'state' and 'district' are required.'', 400)"
      by (simp add: check_outbreak_def c s(1) d(1))
  }
  {
    assume "strip S (args_get (args req) ''state'' []) = []
          \<or> strip S (args_get (args req) ''district'' []) = []"
    then have "lower S (strip S (args_get (args req) ''state'' [])) = []
          \<or> lower S (strip S (args_get (args req) ''district'' [])) = []"
      using l by auto
    then show "test_check S df req
          = Inr (''Error: Both 'state' and 'district' query parameters are required.'', 400)"
      by (simp add: test_check_def)
  }
  {
    assume c: "req_method req = POST" "get_json req = JObj kvs" "kvs \<noteq> []"
      and b: "blank_field S kvs ''disease''"
    from blank_field_get [OF assms blank_field_text [OF b]] b obtain s where
      s: "(case map_of kvs ''disease'' of None \<Rightarrow> JStr [] | Some v \<Rightarrow> v) = JStr s"
        "strip S s = []"
      by blast
    have "remedy_input S req = Inr (Inr [])"
      by (simp add: remedy_input_def c s l)
    then show "get_remedy S df req = Inr (error_body ''Disease parameter is required.'', 400)"
      by (simp add: get_remedy_def)
  }
  {
    assume "req_method req = GET" "strip S (args_get (args req) ''disease'' []) = []"
    then have "remedy_input S req = Inr (Inr [])"
      by (simp add: remedy_input_def l)
    then show "get_remedy S df req = Inr (error_body ''Disease parameter is required.'', 400)"
      by (simp add: get_remedy_def)
  }
  {
    assume "\<not> truthy (get_json req)"
    then show "check_outbreak S df req = Inr (''Error: No JSON data received.'', 400)"
      by (simp add: check_outbreak_def)
  }
  {
    assume "req_method req = POST" "\<not> truthy (get_json req)"
    then have "remedy_input S req = Inr (Inl (error_body ''No JSON data received.'', 400))"
      by (simp add: remedy_input_def)
    then show "get_remedy S df req = Inr (error_body ''No JSON data received.'', 400)"
      by (simp add: get_remedy_def)
  }
qed

theorem missing_parameter_400_witness:
  "check_outbreak ascii_str ex_data
       (post_req (JObj [(''state'', JStr ''  ''), (''district'', JStr ''Wayanad'')]))
     = Inr (''Error: Both 'state' and 'district' are required.'', 400)
   \<and> test_check ascii_str ex_data (get_req [(''state'', ''kerala'')])
     = Inr (''Error: Both 'state' and 'district' query parameters are required.'', 400)
   \<and> get_remedy ascii_str ex_remedy_data (post_req (JObj [(''disease'', JStr '' '')]))
     = Inr (error_body ''Disease parameter is required.'', 400)
   \<and> get_remedy ascii_str ex_remedy_data (get_req [])
     = Inr (error_body ''Disease parameter is required.'', 400)
   \<and> check_outbreak ascii_str ex_data (post_req JNull)
     = Inr (''Error: No JSON data received.'', 400)
   \<and> get_remedy ascii_str ex_remedy_data (post_req JNull)
     = Inr (error_body ''No JSON data received.'', 400)"
proof -
  let ?kv1 = "[(''state'', JStr ''  ''), (''district'', JStr ''Wayanad'')]"
  let ?kv3 = "[(''disease'', JStr '' '')]"
  note T = missing_parameter_400 [OF ascii_str_laws]
  have p: "\<And>c. get_json (post_req c) = c" "\<And>c. req_method (post_req c) = POST"
    "\<And>qs. req_method (get_req qs) = GET" "\<And>qs. args (get_req qs) = qs"
    by (simp_all add: post_req_def get_req_def)
  have h1: "?kv1 \<noteq> []" "text_field ?kv1 ''state''" "text_field ?kv1 ''district''"
    "blank_field ascii_str ?kv1 ''state''"
    by code_simp+
  have h2: "strip ascii_str (args_get [(''state'', ''kerala'')] ''district'' []) = []"
    by code_simp
  have h3: "?kv3 \<noteq> []" "blank_field ascii_str ?kv3 ''disease''"
    by code_simp+
  have h4: "strip ascii_str (args_get [] ''disease'' []) = []"
    by code_simp
  have h5: "\<not> truthy JNull"
    by simp
  have "check_outbreak ascii_str ex_data (post_req (JObj ?kv1))
      = Inr (''Error: Both 'state' and 'district' are required.'', 400)"
    using T [of "post_req (JObj ?kv1)" ?kv1 ex_data, unfolded p] h1 by blast
  moreover have "test_check ascii_str ex_data (get_req [(''state'', ''kerala'')])
      = Inr (''Error: Both 'state' and 'district' query parameters are required.'', 400)"
    using T [of "get_req [(''state'', ''kerala'')]" "[]" ex_data, unfolded p] h2
    by blast
  moreover have "get_remedy ascii_str ex_remedy_data (post_req (JObj ?kv3))
      = Inr (error_body ''Disease parameter is required.'', 400)"
    using T [of "post_req (JObj ?kv3)" ?kv3 ex_remedy_data, unfolded p] h3
    by blast
  moreover have "get_remedy ascii_str ex_remedy_data (get_req [])
      = Inr (error_body ''Disease parameter is required.'', 400)"
    using T [of "get_req []" "[]" ex_remedy_data, unfolded p] h4 by blast
  moreover have "check_outbreak ascii_str ex_data (post_req JNull)
      = Inr (''Error: No JSON data received.'', 400)"
    using T [of "post_req JNull" "[]" ex_data, unfolded p] h5 by blast
  moreover have "get_remedy ascii_str ex_remedy_data (post_req JNull)
      = Inr (error_body ''No JSON data received.'', 400)"
    using T [of "post_req JNull" "[]" ex_remedy_data, unfolded p] h5 by blast
  ultimately show ?thesis
    by blast
qed

text \<open>
  C7 as stated fails on a POST whose body is the empty JSON object: the parameters are
  missing, the status is 400, and the message names none of them.
\<close>

theorem empty_object_counterexample:
  "blank_field ascii_str [] ''state'' \<and> blank_field ascii_str [] ''district''
   \<and> blank_field ascii_str [] ''disease''
   \<and> check_outbreak ascii_str ex_data (post_req (JObj []))
       = Inr (''Error: No JSON data received.'', 400)
   \<and> \<not> sublist ''state'' ''Error: No JSON data received.''
   \<and> \<not> sublist ''district'' ''Error: No JSON data received.''
   \<and> get_remedy ascii_str ex_remedy_data (post_req (JObj []))
       = Inr (JObj [(''error'', JStr ''No JSON data received.'')], 400)
   \<and> \<not> sublist ''isease'' ''No JSON data received.''"
  by code_simp

section \<open>The tables are read only\<close>











end
